theory Spec2Isabelle
  imports Main
begin

section \<open>JSON values and the JavaScript operations the bridge applies to them\<close>

text \<open>
  Every frame on either socket is text that the handlers pass through \<open>JSON.parse\<close>.
  A parsed frame is a \<open>json\<close> value; the value of a JavaScript expression is a
  \<open>jsval\<close>, where \<open>None\<close> stands for \<open>undefined\<close>. Of a number the code only
  ever tests whether it is zero, so numbers are integers here.
\<close>

datatype json =
    JNull
  | JBool bool
  | JNum int
  | JStr string
  | JArr "json list"
  | JObj "(string \<times> json) list"

type_synonym jsval = "json option"

datatype exn = SyntaxError | TypeError | NotOpenError

text \<open>The truthiness test of \<open>if (v)\<close>, \<open>!v\<close> and \<open>a || b\<close>.\<close>

fun truthy :: "jsval \<Rightarrow> bool" where
  "truthy None = False"
| "truthy (Some JNull) = False"
| "truthy (Some (JBool b)) = b"
| "truthy (Some (JNum n)) = (n \<noteq> 0)"
| "truthy (Some (JStr s)) = (s \<noteq> [])"
| "truthy (Some (JArr vs)) = True"
| "truthy (Some (JObj kvs)) = True"

text \<open>Member lookup in a parsed object: of two members with one key the later one wins.\<close>

fun member_of :: "(string \<times> json) list \<Rightarrow> string \<Rightarrow> jsval" where
  "member_of [] k = None"
| "member_of ((k', v) # kvs) k =
     (case member_of kvs k of
        Some v' \<Rightarrow> Some v'
      | None \<Rightarrow> if k' = k then Some v else None)"

text \<open>
  \<open>v.k\<close> for a parsed value \<open>v\<close>: a \<open>TypeError\<close> on \<open>null\<close>, the member on an
  object, and \<open>undefined\<close> on every other value (none of the keys this program reads
  is a property of a string, number, boolean or array).
\<close>

fun get_prop :: "json \<Rightarrow> string \<Rightarrow> exn + jsval" where
  "get_prop JNull k = Inl TypeError"
| "get_prop (JObj kvs) k = Inr (member_of kvs k)"
| "get_prop v k = Inr None"

text \<open>\<open>v?.k\<close>: \<open>undefined\<close> when \<open>v\<close> is \<open>null\<close> or \<open>undefined\<close>.\<close>

fun opt_prop :: "jsval \<Rightarrow> string \<Rightarrow> jsval" where
  "opt_prop (Some (JObj kvs)) k = member_of kvs k"
| "opt_prop v k = None"

text \<open>\<open>a || b\<close> where \<open>b\<close> is a defined value.\<close>

definition or_default :: "jsval \<Rightarrow> json \<Rightarrow> json" where
  "or_default a b = (case a of Some v \<Rightarrow> if truthy a then v else b | None \<Rightarrow> b)"

section \<open>The console, the sockets and the world\<close>

datatype level = LOG | WARN | ERROR

type_synonym logline = "level \<times> string"

text \<open>
  The state of a \<open>ws\<close> WebSocket object: its \<open>readyState\<close> and the frames handed to
  \<open>send\<close> and written to the wire, oldest first (each frame is the value given to
  \<open>JSON.stringify\<close>).
\<close>

datatype readyState = CONNECTING | OPEN | CLOSING | CLOSED

record websocket =
  readyState :: readyState
  sent :: "json list"

type_synonym ref = nat

datatype promise = Pending | Fulfilled | Rejected

text \<open>An \<open>ElevenLabsClient\<close> object; \<open>ws = None\<close> is \<open>this.ws === null\<close>.\<close>

record client =
  streamSid :: json
  twilioSocket :: ref
  prompt :: json
  firstMessage :: json
  ws :: "ref option"
  isConnected :: bool

text \<open>An entry of the \<open>activeConnections\<close> map.\<close>

record connection =
  conn_twilioSocket :: ref
  elevenLabsClient :: ref
  isReady :: bool
  audioQueue :: "json list"
  startTime :: int

text \<open>
  The keys of a JavaScript \<open>Map\<close>. Two primitive values (strings, numbers, booleans,
  \<open>null\<close>, \<open>undefined\<close>) are the same key when they are equal; an array or an
  object is the same key only as itself, whatever it contains, so it is a key by its
  identity.
\<close>

datatype key = ByValue jsval | ByIdentity nat

definition is_object :: "jsval \<Rightarrow> bool" where
  "is_object v = (case v of Some (JArr vs) \<Rightarrow> True | Some (JObj kvs) \<Rightarrow> True | _ \<Rightarrow> False)"

text \<open>The key that a value is, when \<open>i\<close> is its identity in case it is an array or an object.\<close>

definition map_key :: "nat \<Rightarrow> jsval \<Rightarrow> key" where
  "map_key i v = (if is_object v then ByIdentity i else ByValue v)"

text \<open>
  The objects the handlers share: the module-level map \<open>activeConnections\<close>, the
  client objects and the WebSocket objects (both kinds of socket live in \<open>sockets\<close>),
  each addressed by a reference, and for every client the state of the promise that its
  \<open>startConversation()\<close> returned. \<open>configured\<close> tells whether \<open>process.env\<close>
  holds both \<open>ELEVENLABS_API_KEY\<close> and \<open>ELEVENLABS_AGENT_ID\<close>. \<open>nextObject\<close> is
  the identity of the next array or object that a parsed frame brings as a \<open>streamSid\<close>:
  every \<open>JSON.parse\<close> builds new objects, so no two frames share one.
\<close>

record world =
  activeConnections :: "key \<rightharpoonup> connection"
  clients :: "ref \<Rightarrow> client"
  nextClient :: ref
  sockets :: "ref \<Rightarrow> websocket"
  nextSocket :: ref
  startPromise :: "ref \<Rightarrow> promise"
  configured :: bool
  nextObject :: nat

text \<open>
  \<open>socket.send(frame)\<close> of the \<open>ws\<close> library: it throws while the socket is still
  connecting, writes the frame when the socket is open, and writes nothing once the
  socket is closing or closed.
\<close>

definition ws_send :: "ref \<Rightarrow> json \<Rightarrow> world \<Rightarrow> exn + world" where
  "ws_send r frame w =
     (case readyState (sockets w r) of
        CONNECTING \<Rightarrow> Inl NotOpenError
      | OPEN \<Rightarrow> Inr (w\<lparr>sockets := (sockets w)(r := (sockets w r)\<lparr>sent := sent (sockets w r) @ [frame]\<rparr>)\<rparr>)
      | CLOSING \<Rightarrow> Inr w
      | CLOSED \<Rightarrow> Inr w)"

text \<open>\<open>socket.close()\<close> and \<open>socket.terminate()\<close>: a socket that is not closed starts closing.\<close>

definition ws_close :: "ref \<Rightarrow> world \<Rightarrow> world" where
  "ws_close r w =
     (case readyState (sockets w r) of
        CLOSED \<Rightarrow> w
      | _ \<Rightarrow> w\<lparr>sockets := (sockets w)(r := (sockets w r)\<lparr>readyState := CLOSING\<rparr>)\<rparr>)"

section \<open>The agent-side client of dist/index.js\<close>

definition media_frame :: "json \<Rightarrow> json \<Rightarrow> json" where
  "media_frame sid payload =
     JObj [(''event'', JStr ''media''), (''streamSid'', sid),
           (''media'', JObj [(''payload'', payload)])]"

definition clear_frame :: "json \<Rightarrow> json" where
  "clear_frame sid = JObj [(''event'', JStr ''clear''), (''streamSid'', sid)]"

definition pong_frame :: "json \<Rightarrow> json" where
  "pong_frame event_id = JObj [(''type'', JStr ''pong''), (''event_id'', event_id)]"

definition audio_chunk_frame :: "json \<Rightarrow> json" where
  "audio_chunk_frame payload = JObj [(''user_audio_chunk'', payload)]"

definition err_processing :: logline where
  "err_processing = (ERROR, ''[ElevenLabs] Error processing message:'')"

text \<open>
  The body of the \<open>try\<close> block of the client's \<open>message\<close> listener, after
  \<open>JSON.parse\<close>: the \<open>switch (message.type)\<close>. The result is the lines written to the
  console and either the exception that leaves the block or the new world.
\<close>

definition dispatch_agent_message :: "ref \<Rightarrow> json \<Rightarrow> world \<Rightarrow> logline list \<times> (exn + world)" where
  "dispatch_agent_message c message w =
     (case get_prop message ''type'' of
        Inl e \<Rightarrow> ([], Inl e)
      | Inr t \<Rightarrow>
          if t = Some (JStr ''conversation_initiation_metadata'') then
            ([(LOG, ''[ElevenLabs] Received initiation metadata'')], Inr w)
          else if t = Some (JStr ''audio'') then
            (if truthy (Some (streamSid (clients w c))) then
               (if truthy (opt_prop (opt_prop (Some message) ''audio'') ''chunk'') then
                  (case ws_send (twilioSocket (clients w c))
                          (media_frame (streamSid (clients w c))
                             (the (opt_prop (opt_prop (Some message) ''audio'') ''chunk''))) w of
                     Inl e \<Rightarrow> ([(LOG, ''[ElevenLabs] Received audio'')], Inl e)
                   | Inr w' \<Rightarrow>
                       ([(LOG, ''[ElevenLabs] Received audio''),
                         (LOG, ''[ElevenLabs] Sent audio chunk to Twilio'')], Inr w'))
                else if truthy (opt_prop (opt_prop (Some message) ''audio_event'') ''audio_base_64'') then
                  (case ws_send (twilioSocket (clients w c))
                          (media_frame (streamSid (clients w c))
                             (the (opt_prop (opt_prop (Some message) ''audio_event'') ''audio_base_64''))) w of
                     Inl e \<Rightarrow> ([(LOG, ''[ElevenLabs] Received audio'')], Inl e)
                   | Inr w' \<Rightarrow>
                       ([(LOG, ''[ElevenLabs] Received audio''),
                         (LOG, ''[ElevenLabs] Sent audio_event to Twilio'')], Inr w'))
                else ([(LOG, ''[ElevenLabs] Received audio'')], Inr w))
             else
               ([(LOG, ''[ElevenLabs] Received audio''),
                 (LOG, ''[ElevenLabs] Received audio but no StreamSid yet'')], Inr w))
          else if t = Some (JStr ''interruption'') then
            (if truthy (Some (streamSid (clients w c))) then
               (case ws_send (twilioSocket (clients w c)) (clear_frame (streamSid (clients w c))) w of
                  Inl e \<Rightarrow> ([(LOG, ''[ElevenLabs] Received interruption'')], Inl e)
                | Inr w' \<Rightarrow> ([(LOG, ''[ElevenLabs] Received interruption'')], Inr w'))
             else ([(LOG, ''[ElevenLabs] Received interruption'')], Inr w))
          else if t = Some (JStr ''ping'') then
            (if truthy (opt_prop (opt_prop (Some message) ''ping_event'') ''event_id'') then
               (case ws (clients w c) of
                  None \<Rightarrow> ([], Inl TypeError)
                | Some r \<Rightarrow>
                    (case ws_send r
                            (pong_frame (the (opt_prop (opt_prop (Some message) ''ping_event'') ''event_id''))) w of
                       Inl e \<Rightarrow> ([], Inl e)
                     | Inr w' \<Rightarrow> ([(LOG, ''[ElevenLabs] Sent pong response'')], Inr w')))
             else ([], Inr w))
          else if t = Some (JStr ''agent_response'') then
            ([(LOG, ''[ElevenLabs] Agent response:'')], Inr w)
          else if t = Some (JStr ''user_transcript'') then
            ([(LOG, ''[ElevenLabs] User transcript:'')], Inr w)
          else ([(LOG, ''[ElevenLabs] Unhandled message type:'')], Inr w))"

text \<open>
  The \<open>message\<close> listener of the client: \<open>try { JSON.parse; switch } catch { console.error }\<close>.
  \<open>parse\<close> is \<open>JSON.parse\<close>, with \<open>None\<close> for the \<open>SyntaxError\<close> it throws on text
  that is not JSON.
\<close>

definition on_agent_message :: "(string \<Rightarrow> json option) \<Rightarrow> ref \<Rightarrow> string \<Rightarrow> world \<Rightarrow> logline list \<times> world" where
  "on_agent_message parse c data w =
     (case parse data of
        None \<Rightarrow> ([err_processing], w)
      | Some message \<Rightarrow>
          (case dispatch_agent_message c message w of
             (out, Inl e) \<Rightarrow> (out @ [err_processing], w)
           | (out, Inr w') \<Rightarrow> (out, w')))"

text \<open>
  \<open>sendAudio(payload)\<close>. It is only ever called with a truthy payload, so reading
  \<open>payload.length\<close> for the console line cannot throw.
\<close>

definition sendAudio :: "ref \<Rightarrow> json \<Rightarrow> world \<Rightarrow> logline list \<times> world" where
  "sendAudio c payload w =
     (case ws (clients w c) of
        None \<Rightarrow> ([(WARN, ''Cannot send audio: WebSocket not connected'')], w)
      | Some r \<Rightarrow>
          if \<not> isConnected (clients w c) then
            ([(WARN, ''Cannot send audio: WebSocket not connected'')], w)
          else if readyState (sockets w r) \<noteq> OPEN then
            ([(WARN, ''Cannot send audio: WebSocket not in OPEN state. Current state:'')], w)
          else
            (case ws_send r (audio_chunk_frame payload) w of
               Inl e \<Rightarrow> ([(LOG, ''Sending audio to ElevenLabs, length:''),
                          (ERROR, ''Error sending audio to ElevenLabs:'')], w)
             | Inr w' \<Rightarrow> ([(LOG, ''Sending audio to ElevenLabs, length:'')], w')))"

text \<open>\<open>endConversation()\<close> of the client of dist/index.js.\<close>

definition endConversation :: "ref \<Rightarrow> world \<Rightarrow> logline list \<times> world" where
  "endConversation c w =
     (case ws (clients w c) of
        None \<Rightarrow> ([(LOG, ''No active conversation to end'')], w)
      | Some r \<Rightarrow>
          (let (out, w1) =
                 (if readyState (sockets w r) = OPEN then
                    ([(LOG, ''Closing ElevenLabs WebSocket connection'')], ws_close r w)
                  else ([(LOG, ''WebSocket already closing or closed'')], w))
           in (out @ [(LOG, ''ElevenLabs conversation ended'')],
               w1\<lparr>clients := (clients w1)(c := (clients w1 c)\<lparr>ws := None, isConnected := False\<rparr>)\<rparr>)))"

text \<open>
  \<open>new ElevenLabsClient(options)\<close> for options whose \<open>streamSid\<close> and \<open>twilioSocket\<close>
  are truthy (the constructor throws otherwise): the new object, its reference, and the
  promise that the \<open>startConversation()\<close> call following the construction returns.
\<close>

definition new_client :: "json \<Rightarrow> ref \<Rightarrow> json \<Rightarrow> json \<Rightarrow> world \<Rightarrow> ref \<times> world" where
  "new_client sid sock p fm w =
     (nextClient w,
      w\<lparr>clients := (clients w)(nextClient w :=
             \<lparr>streamSid = sid, twilioSocket = sock,
              prompt = or_default (Some p) (JStr ''You are a friendly AI assistant.''),
              firstMessage = or_default (Some fm) (JStr ''Hello, this is an AI assistant calling you.''),
              ws = None, isConnected = False\<rparr>),
         nextClient := Suc (nextClient w),
         startPromise := (startPromise w)(nextClient w := Pending)\<rparr>)"

section \<open>The /call-stream handler of dist/index.js\<close>

text \<open>
  The variables closed over by the listeners of one telephony socket:
  \<open>socket\<close>, \<open>streamSid\<close> and \<open>callSid\<close> (both \<open>null\<close> at first). Of
  \<open>streamSid\<close> the handler holds the value, \<open>h_streamSid\<close>, and the key that this
  value is for \<open>activeConnections.has\<close>, \<open>.get\<close>, \<open>.set\<close> and \<open>.delete\<close>,
  \<open>h_streamKey\<close>.
\<close>

record handler =
  h_socket :: ref
  h_streamSid :: jsval
  h_streamKey :: key
  h_callSid :: jsval

definition new_handler :: "ref \<Rightarrow> handler" where
  "new_handler s =
     \<lparr>h_socket = s, h_streamSid = Some JNull, h_streamKey = ByValue (Some JNull), h_callSid = Some JNull\<rparr>"

text \<open>
  The branch for \<open>message.event === 'start'\<close>. The closure variables are assigned
  before they are checked; a \<open>streamSid\<close> that is an array or an object is a new
  object of this frame. The entry is stored with \<open>activeConnections.set\<close>, with no
  test for an entry already under the key. The constructor is given a truthy \<open>streamSid\<close> and a
  socket, so it does not throw and the inner \<open>catch\<close> is not entered.
  \<open>startConversation()\<close> runs inside this branch up to its first \<open>await\<close>: it calls
  \<open>getSignedUrl()\<close>, which either starts the request for the URL or, when the
  configuration is missing, throws at once and logs in its own \<open>catch\<close>. What follows
  the \<open>await\<close> is in \<open>signed_url_received\<close> and \<open>signed_url_failed\<close> below.
\<close>

definition on_start :: "int \<Rightarrow> json \<Rightarrow> handler \<Rightarrow> world \<Rightarrow> logline list \<times> handler \<times> world" where
  "on_start now message h w =
     (let start = opt_prop (Some message) ''start'';
          sid = opt_prop start ''streamSid'';
          cid = opt_prop start ''callSid'';
          k = map_key (nextObject w) sid;
          h' = h\<lparr>h_streamSid := sid, h_streamKey := k, h_callSid := cid\<rparr>;
          w0 = (if is_object sid then w\<lparr>nextObject := Suc (nextObject w)\<rparr> else w)
      in if \<not> truthy sid \<or> \<not> truthy cid then
           ([(ERROR, ''Missing streamSid or callSid in start event'')], h', w0)
         else
           (let parameters = or_default (opt_prop start ''customParameters'') (JObj []);
                p = or_default (opt_prop (Some parameters) ''prompt'')
                      (JStr ''You are a friendly AI assistant.'');
                fm = or_default (opt_prop (Some parameters) ''first_message'')
                      (JStr ''Hello, this is an AI assistant calling you.'');
                (c, w1) = new_client (the sid) (h_socket h) p fm w0
            in ([(LOG, ''Call started:''), (LOG, ''Prompt:''), (LOG, ''First message:''),
                 (LOG, ''ElevenLabs client initialized with streamSid:''),
                 (if configured w
                  then (LOG, ''Getting signed URL for ElevenLabs connection...'')
                  else (ERROR, ''Error getting signed URL:''))],
                h',
                w1\<lparr>activeConnections := (activeConnections w1)(k \<mapsto>
                      \<lparr>conn_twilioSocket = h_socket h, elevenLabsClient = c,
                       isReady = False, audioQueue = [], startTime = now\<rparr>)\<rparr>)))"

text \<open>\<open>message.media?.payload\<close>.\<close>

definition payload_of :: "json \<Rightarrow> jsval" where
  "payload_of message = opt_prop (opt_prop (Some message) ''media'') ''payload''"

text \<open>
  The branch for \<open>message.event === 'media' && streamSid\<close>. The client stored in an
  entry is an object, so \<open>connection.elevenLabsClient\<close> is always truthy and the last
  \<open>else\<close> of the source is never taken.
\<close>

definition on_media :: "int \<Rightarrow> json \<Rightarrow> handler \<Rightarrow> world \<Rightarrow> logline list \<times> world" where
  "on_media now message h w =
     (let payload = payload_of message
      in if \<not> truthy payload then ([], w)
         else
           (case activeConnections w (h_streamKey h) of
              None \<Rightarrow> ([], w)
            | Some conn \<Rightarrow>
                if isReady conn then sendAudio (elevenLabsClient conn) (the payload) w
                else
                  (let q1 = audioQueue conn @ [the payload];
                       q2 = (if length q1 > 50 then tl q1 else q1)
                   in ((LOG, ''Queueing audio packet for later - connection not ready yet'') #
                       (if now - startTime conn > 10000 \<and> length q2 mod 10 = 0
                        then [(WARN, ''Still waiting for ElevenLabs connection after'')] else []),
                       w\<lparr>activeConnections := (activeConnections w)(h_streamKey h \<mapsto>
                            conn\<lparr>audioQueue := q2\<rparr>)\<rparr>))))"

text \<open>The branch for \<open>message.event === 'stop' && streamSid\<close>.\<close>

definition on_stop :: "handler \<Rightarrow> world \<Rightarrow> logline list \<times> world" where
  "on_stop h w =
     (case activeConnections w (h_streamKey h) of
        None \<Rightarrow> ([(LOG, ''Call ended, cleaning up'')], w)
      | Some conn \<Rightarrow>
          (let (out, w1) = endConversation (elevenLabsClient conn) w
           in ((LOG, ''Call ended, cleaning up'') # out,
               w1\<lparr>activeConnections := (activeConnections w1)(h_streamKey h := None)\<rparr>)))"

definition err_socket_message :: logline where
  "err_socket_message = (ERROR, ''Error processing WebSocket message:'')"

text \<open>
  The body of the \<open>try\<close> block of the telephony socket's \<open>message\<close> listener for
  a frame whose text parses to \<open>message\<close>. \<open>now\<close> is what \<open>Date.now()\<close> returns
  while the listener runs. Reading \<open>message.event\<close> throws when the frame is the JSON
  text \<open>null\<close>; the \<open>catch\<close> block then writes to the console.
\<close>

definition socket_frame ::
  "int \<Rightarrow> json \<Rightarrow> handler \<times> world \<Rightarrow> logline list \<times> handler \<times> world" where
  "socket_frame now message hw =
     (case hw of (h, w) \<Rightarrow>
        (case get_prop message ''event'' of
           Inl e \<Rightarrow> ([err_socket_message], h, w)
         | Inr ev \<Rightarrow>
             if ev = Some (JStr ''start'') then
               (case on_start now message h w of
                  (out, h', w') \<Rightarrow> ((LOG, ''Received Twilio event:'') # out, h', w'))
             else if ev = Some (JStr ''media'') \<and> truthy (h_streamSid h) then
               (case on_media now message h w of
                  (out, w') \<Rightarrow> ((LOG, ''Received Twilio event:'') # out, h, w'))
             else if ev = Some (JStr ''stop'') \<and> truthy (h_streamSid h) then
               (case on_stop h w of
                  (out, w') \<Rightarrow> ((LOG, ''Received Twilio event:'') # out, h, w'))
             else ([(LOG, ''Received Twilio event:'')], h, w)))"

text \<open>
  The \<open>message\<close> listener of the telephony socket:
  \<open>try { JSON.parse; ... } catch { console.error }\<close>, with \<open>parse\<close> for
  \<open>JSON.parse\<close> as in the client.
\<close>

definition on_socket_message ::
  "(string \<Rightarrow> json option) \<Rightarrow> int \<Rightarrow> string \<Rightarrow> handler \<times> world \<Rightarrow> logline list \<times> handler \<times> world" where
  "on_socket_message parse now raw hw =
     (case parse raw of
        None \<Rightarrow> ([err_socket_message], fst hw, snd hw)
      | Some message \<Rightarrow> socket_frame now message hw)"

text \<open>
  The telephony socket closes: the library sets its \<open>readyState\<close>, then the \<open>close\<close>
  listener runs.
\<close>

definition on_socket_close :: "handler \<Rightarrow> world \<Rightarrow> logline list \<times> world" where
  "on_socket_close h w =
     (let w0 = w\<lparr>sockets := (sockets w)(h_socket h := (sockets w (h_socket h))\<lparr>readyState := CLOSED\<rparr>)\<rparr>
      in if truthy (h_streamSid h) then
           (case activeConnections w0 (h_streamKey h) of
              None \<Rightarrow> ([(LOG, ''WebSocket connection closed:'')], w0)
            | Some conn \<Rightarrow>
                (let (out, w1) = endConversation (elevenLabsClient conn) w0
                 in ((LOG, ''WebSocket connection closed:'') # out,
                     w1\<lparr>activeConnections := (activeConnections w1)(h_streamKey h := None)\<rparr>)))
         else ([(LOG, ''WebSocket connection closed:'')], w0))"

subsection \<open>The callbacks on the promise of startConversation\<close>

text \<open>\<open>queue.forEach(payload => elevenLabsClient.sendAudio(payload))\<close>.\<close>

fun send_queued :: "ref \<Rightarrow> json list \<Rightarrow> world \<Rightarrow> logline list \<times> world" where
  "send_queued c [] w = ([], w)"
| "send_queued c (payload # rest) w =
     (case sendAudio c payload w of
        (out1, w1) \<Rightarrow> (case send_queued c rest w1 of (out2, w2) \<Rightarrow> (out1 @ out2, w2)))"

text \<open>
  The \<open>.then\<close> callback registered by the \<open>start\<close> branch. It reads the closure
  variable \<open>streamSid\<close> when it runs, and sends through the client \<open>c\<close> it was
  created with.
\<close>

definition on_conversation_started :: "handler \<Rightarrow> ref \<Rightarrow> world \<Rightarrow> logline list \<times> world" where
  "on_conversation_started h c w =
     (case activeConnections w (h_streamKey h) of
        None \<Rightarrow> ([(LOG, ''ElevenLabs conversation started successfully'')], w)
      | Some conn \<Rightarrow>
          (let sid = h_streamKey h;
               w1 = w\<lparr>activeConnections := (activeConnections w)(sid \<mapsto> conn\<lparr>isReady := True\<rparr>)\<rparr>
           in if length (audioQueue conn) > 0 then
                (case send_queued c (audioQueue conn)
                        (w\<lparr>activeConnections := (activeConnections w)(sid \<mapsto>
                              conn\<lparr>isReady := True, audioQueue := []\<rparr>)\<rparr>) of
                   (out, w2) \<Rightarrow>
                     ([(LOG, ''ElevenLabs conversation started successfully''),
                       (LOG, ''Connection marked as ready for audio''),
                       (LOG, ''Processing queued audio packets'')] @ out, w2))
              else
                ([(LOG, ''ElevenLabs conversation started successfully''),
                  (LOG, ''Connection marked as ready for audio'')], w1)))"

text \<open>The \<open>.catch\<close> callback registered by the \<open>start\<close> branch: it writes to the console only.\<close>

definition on_conversation_failed :: "ref \<Rightarrow> world \<Rightarrow> logline list \<times> world" where
  "on_conversation_failed c w =
     ([(ERROR, ''Error starting conversation:''), (LOG, ''Connection attempts:''),
       (case ws (clients w c) of
          Some r \<Rightarrow> (LOG, ''WebSocket ready state:'')
        | None \<Rightarrow> (LOG, ''WebSocket not initialized''))], w)"

text \<open>
  \<open>resolve()\<close> and \<open>reject(error)\<close> on the promise of client \<open>c\<close>: the first of them
  settles the promise and runs the matching callback, any later one does nothing.
\<close>

definition resolve_start :: "handler \<Rightarrow> ref \<Rightarrow> world \<Rightarrow> logline list \<times> world" where
  "resolve_start h c w =
     (if startPromise w c = Pending
      then on_conversation_started h c (w\<lparr>startPromise := (startPromise w)(c := Fulfilled)\<rparr>)
      else ([], w))"

definition reject_start :: "ref \<Rightarrow> world \<Rightarrow> logline list \<times> world" where
  "reject_start c w =
     (if startPromise w c = Pending
      then on_conversation_failed c (w\<lparr>startPromise := (startPromise w)(c := Rejected)\<rparr>)
      else ([], w))"

subsection \<open>The events of the agent socket\<close>

definition config_frame :: "json \<Rightarrow> json \<Rightarrow> json" where
  "config_frame p fm =
     JObj [(''type'', JStr ''conversation_initiation_client_data''),
           (''conversation_config_override'',
            JObj [(''agent'', JObj [(''prompt'', JObj [(''prompt'', p)]), (''first_message'', fm)])])]"

text \<open>
  \<open>startConversation()\<close> first awaits \<open>getSignedUrl()\<close>. When that returns a URL the
  function goes on to \<open>this.ws = new WebSocket(signedUrl)\<close> and registers its listeners.
\<close>

definition signed_url_received :: "ref \<Rightarrow> world \<Rightarrow> logline list \<times> world" where
  "signed_url_received c w =
     ([(LOG, ''Received signed URL from ElevenLabs''), (LOG, ''Got signed URL:'')],
      w\<lparr>sockets := (sockets w)(nextSocket w := \<lparr>readyState = CONNECTING, sent = []\<rparr>),
        nextSocket := Suc (nextSocket w),
        clients := (clients w)(c := (clients w c)\<lparr>ws := Some (nextSocket w)\<rparr>)\<rparr>)"

text \<open>
  When the promise of \<open>getSignedUrl()\<close> is rejected, the \<open>catch\<close> of
  \<open>startConversation()\<close> logs and rethrows, which rejects the promise of the client.
  The \<open>catch\<close> of \<open>getSignedUrl()\<close> has logged before: just now when the request
  failed, already inside the \<open>start\<close> branch when the configuration is missing.
\<close>

definition signed_url_failed :: "ref \<Rightarrow> world \<Rightarrow> logline list \<times> world" where
  "signed_url_failed c w =
     (case reject_start c w of
        (out, w') \<Rightarrow>
          ((if configured w then [(ERROR, ''Error getting signed URL:'')] else []) @
           [(ERROR, ''Error starting conversation:'')] @ out, w'))"

text \<open>
  The socket \<open>r\<close> opens: the library sets its \<open>readyState\<close>, then the two \<open>open\<close>
  listeners run. The first one sends the configuration through \<open>this.ws\<close> with no
  check, so a client whose \<open>ws\<close> was reset to \<open>null\<close> in the meantime throws out
  of the listener; the second one resolves the promise.
\<close>

definition on_agent_open :: "handler \<Rightarrow> ref \<Rightarrow> ref \<Rightarrow> world \<Rightarrow> exn + logline list \<times> world" where
  "on_agent_open h c r w =
     (let w1 = w\<lparr>sockets := (sockets w)(r := (sockets w r)\<lparr>readyState := OPEN\<rparr>)\<rparr>;
          w2 = w1\<lparr>clients := (clients w1)(c := (clients w1 c)\<lparr>isConnected := True\<rparr>)\<rparr>
      in case ws (clients w2 c) of
           None \<Rightarrow> Inl TypeError
         | Some r' \<Rightarrow>
             (case ws_send r' (config_frame (prompt (clients w2 c)) (firstMessage (clients w2 c))) w2 of
                Inl e \<Rightarrow> Inl e
              | Inr w3 \<Rightarrow>
                  (case resolve_start h c w3 of
                     (out, w4) \<Rightarrow>
                       Inr ([(LOG, ''[ElevenLabs] Connected to Conversational AI''),
                             (LOG, ''[ElevenLabs] Sending initial config with prompt:'')] @ out, w4))))"

text \<open>The two \<open>error\<close> listeners: the first logs, the second rejects the promise.\<close>

definition on_agent_error :: "ref \<Rightarrow> world \<Rightarrow> logline list \<times> world" where
  "on_agent_error c w =
     (case reject_start c w of
        (out, w') \<Rightarrow> ((ERROR, ''[ElevenLabs] WebSocket error:'') # out, w'))"

text \<open>The callback of the 10000 ms timer armed by \<open>startConversation()\<close>.\<close>

definition on_connect_timeout :: "ref \<Rightarrow> world \<Rightarrow> logline list \<times> world" where
  "on_connect_timeout c w =
     (if \<not> isConnected (clients w c) then reject_start c w else ([], w))"

text \<open>The socket \<open>r\<close> closes: the library sets its \<open>readyState\<close>, then the \<open>close\<close> listener runs.\<close>

definition on_agent_close :: "ref \<Rightarrow> ref \<Rightarrow> world \<Rightarrow> logline list \<times> world" where
  "on_agent_close c r w =
     (let w1 = w\<lparr>sockets := (sockets w)(r := (sockets w r)\<lparr>readyState := CLOSED\<rparr>)\<rparr>
      in ([(LOG, ''[ElevenLabs] Disconnected'')],
          w1\<lparr>clients := (clients w1)(c := (clients w1 c)\<lparr>isConnected := False\<rparr>)\<rparr>))"

subsection \<open>Sequences of frames\<close>

text \<open>The telephony frames of a list, each with the time of its arrival, handled in order.\<close>

fun feed :: "(int \<times> json) list \<Rightarrow> handler \<times> world \<Rightarrow> logline list \<times> handler \<times> world" where
  "feed [] hw = ([], fst hw, snd hw)"
| "feed (f # fs) hw =
     (case socket_frame (fst f) (snd f) hw of
        (out1, h1, w1) \<Rightarrow>
          (case feed fs (h1, w1) of (out2, h2, w2) \<Rightarrow> (out1 @ out2, h2, w2)))"

fun feed_raw ::
  "(string \<Rightarrow> json option) \<Rightarrow> (int \<times> string) list \<Rightarrow> handler \<times> world \<Rightarrow> logline list \<times> handler \<times> world" where
  "feed_raw parse [] hw = ([], fst hw, snd hw)"
| "feed_raw parse (f # fs) hw =
     (case on_socket_message parse (fst f) (snd f) hw of
        (out1, h1, w1) \<Rightarrow>
          (case feed_raw parse fs (h1, w1) of (out2, h2, w2) \<Rightarrow> (out1 @ out2, h2, w2)))"

text \<open>The agent frames of a list, handled in order by the client \<open>c\<close>.\<close>

fun feed_agent :: "(string \<Rightarrow> json option) \<Rightarrow> ref \<Rightarrow> string list \<Rightarrow> world \<Rightarrow> logline list \<times> world" where
  "feed_agent parse c [] w = ([], w)"
| "feed_agent parse c (d # ds) w =
     (case on_agent_message parse c d w of
        (out1, w1) \<Rightarrow> (case feed_agent parse c ds w1 of (out2, w2) \<Rightarrow> (out1 @ out2, w2)))"

section \<open>The client of dist/services/elevenlabs.js and the cleanup of the compiled handler\<close>

definition mark_frame :: "json \<Rightarrow> json" where
  "mark_frame sid =
     JObj [(''streamSid'', sid), (''event'', JStr ''mark''),
           (''mark'', JObj [(''name'', JStr ''conversation-complete'')])]"

text \<open>
  \<open>endConversation()\<close> of dist/services/elevenlabs.js. \<open>close\<close> on an open socket and
  \<open>terminate\<close> on a connecting one do not throw, so the inner \<open>catch\<close> is not entered;
  the telephony socket is a server-side socket and never \<open>CONNECTING\<close>, and a \<open>send\<close>
  that throws is caught and logged.
\<close>

definition svc_endConversation :: "ref \<Rightarrow> world \<Rightarrow> logline list \<times> world" where
  "svc_endConversation c w =
     (let (out1, w1) =
            (case ws (clients w c) of
               None \<Rightarrow> ([], w)
             | Some r \<Rightarrow>
                 (let (lg, w') =
                        (case readyState (sockets w r) of
                           OPEN \<Rightarrow> ([(LOG, ''Closing ElevenLabs WebSocket connection properly'')], ws_close r w)
                         | CONNECTING \<Rightarrow> ([(LOG, ''WebSocket still connecting, terminating'')], ws_close r w)
                         | CLOSING \<Rightarrow> ([(LOG, ''WebSocket in state, already closing/closed'')], w)
                         | CLOSED \<Rightarrow> ([(LOG, ''WebSocket in state, already closing/closed'')], w))
                  in (lg, w'\<lparr>clients := (clients w')(c := (clients w' c)\<lparr>ws := None\<rparr>)\<rparr>)));
          w2 = w1\<lparr>clients := (clients w1)(c := (clients w1 c)\<lparr>isConnected := False\<rparr>)\<rparr>
      in if readyState (sockets w2 (twilioSocket (clients w2 c))) = OPEN then
           (case ws_send (twilioSocket (clients w2 c)) (mark_frame (streamSid (clients w2 c))) w2 of
              Inl e \<Rightarrow> (out1 @ [(ERROR, ''Error sending completion mark to Twilio:'')], w2)
            | Inr w3 \<Rightarrow> (out1 @ [(LOG, ''Sent conversation-complete mark to Twilio'')], w3))
         else (out1, w2))"

text \<open>
  \<open>cleanupConnection(sid)\<close> of the compiled /call-stream handler (the first module of
  dist/index.js, whose client is the one of dist/services/elevenlabs.js). The entries
  of that handler hold the socket and the client only; the other fields of
  \<open>connection\<close> are not read here. The argument is the key that the caller's
  \<open>streamSid\<close> is. \<open>endConversation()\<close> is an async function, so nothing is thrown
  into the \<open>catch\<close> block of the cleanup.
\<close>

definition cleanupConnection :: "key \<Rightarrow> world \<Rightarrow> logline list \<times> world" where
  "cleanupConnection sid w =
     (case activeConnections w sid of
        None \<Rightarrow> ([(LOG, ''Cleaning up connection for stream'')], w)
      | Some conn \<Rightarrow>
          (case svc_endConversation (elevenLabsClient conn) w of
             (out, w1) \<Rightarrow>
               ((LOG, ''Cleaning up connection for stream'') # out @
                [(LOG, ''Removed stream from active connections'')],
                w1\<lparr>activeConnections := (activeConnections w1)(sid := None)\<rparr>)))"

section \<open>safeJsonParse of src/utils/elevenlabs.ts\<close>

text \<open>The parsed value, or \<open>null\<close> and a console line when \<open>JSON.parse\<close> throws.\<close>

definition safeJsonParse :: "(string \<Rightarrow> json option) \<Rightarrow> string \<Rightarrow> logline list \<times> json" where
  "safeJsonParse parse text =
     (case parse text of
        Some v \<Rightarrow> ([], v)
      | None \<Rightarrow> ([(ERROR, ''Error parsing JSON:'')], JNull))"

section \<open>Notions used in the statements\<close>

text \<open>A telephony frame is a media frame when its \<open>event\<close> member is the string \<open>media\<close>.\<close>

definition is_media :: "json \<Rightarrow> bool" where
  "is_media m = (get_prop m ''event'' = Inr (Some (JStr ''media'')))"

text \<open>
  The audio payloads of a list of telephony frames, in arrival order: the frames whose
  \<open>media.payload\<close> is missing or empty carry no audio and pass the handler without effect.
\<close>

definition payloads :: "(int \<times> json) list \<Rightarrow> json list" where
  "payloads fs = map (\<lambda>f. the (payload_of (snd f))) (filter (\<lambda>f. truthy (payload_of (snd f))) fs)"

text \<open>The last \<open>n\<close> elements of a list.\<close>

definition keep_last :: "nat \<Rightarrow> 'a list \<Rightarrow> 'a list" where
  "keep_last n xs = drop (length xs - n) xs"

text \<open>The world in which the frames \<open>frames\<close> have been written to socket \<open>r\<close>.\<close>

definition emit :: "ref \<Rightarrow> json list \<Rightarrow> world \<Rightarrow> world" where
  "emit r frames w =
     w\<lparr>sockets := (sockets w)(r := (sockets w r)\<lparr>sent := sent (sockets w r) @ frames\<rparr>)\<rparr>"

text \<open>
  The world in which the socket \<open>r\<close> of client \<open>c\<close> is open, the promise of \<open>c\<close> is
  fulfilled and the entry \<open>conn\<close> under \<open>sid\<close> is ready with an empty queue.
\<close>

definition opened :: "key \<Rightarrow> connection \<Rightarrow> ref \<Rightarrow> ref \<Rightarrow> world \<Rightarrow> world" where
  "opened sid conn c r w =
     w\<lparr>sockets := (sockets w)(r := (sockets w r)\<lparr>readyState := OPEN\<rparr>),
       clients := (clients w)(c := (clients w c)\<lparr>isConnected := True\<rparr>),
       startPromise := (startPromise w)(c := Fulfilled),
       activeConnections := (activeConnections w)(sid \<mapsto> conn\<lparr>isReady := True, audioQueue := []\<rparr>)\<rparr>"

text \<open>The world a listener leaves behind, if it returns.\<close>

definition world_of :: "exn + logline list \<times> world \<Rightarrow> world option" where
  "world_of res = (case res of Inl e \<Rightarrow> None | Inr ow \<Rightarrow> Some (snd ow))"

section \<open>A concrete call\<close>

text \<open>
  A process that has just accepted one telephony socket (reference 0), and the states
  it goes through when the call \<open>S1\<close> starts, the signed URL arrives and media frames
  come in while the agent socket (reference 1) is still connecting.
\<close>

definition blank_client :: client where
  "blank_client = \<lparr>streamSid = JNull, twilioSocket = 0, prompt = JNull, firstMessage = JNull,
                    ws = None, isConnected = False\<rparr>"

definition world0 :: world where
  "world0 = \<lparr>activeConnections = Map.empty,
             clients = (\<lambda>c. blank_client),
             nextClient = 0,
             sockets = (\<lambda>r. \<lparr>readyState = CLOSED, sent = []\<rparr>)(0 := \<lparr>readyState = OPEN, sent = []\<rparr>),
             nextSocket = 1,
             startPromise = (\<lambda>c. Pending),
             configured = True,
             nextObject = 0\<rparr>"

definition start_S1 :: json where
  "start_S1 = JObj [(''event'', JStr ''start''),
                    (''start'', JObj [(''streamSid'', JStr ''S1''), (''callSid'', JStr ''CA1'')])]"

definition media :: "string \<Rightarrow> json" where
  "media p = JObj [(''event'', JStr ''media''), (''media'', JObj [(''payload'', JStr p)])]"

definition started :: "handler \<times> world" where
  "started = snd (socket_frame 0 start_S1 (new_handler 0, world0))"

definition connecting :: "handler \<times> world" where
  "connecting = (fst started, snd (signed_url_received 0 (snd started)))"

definition conn_S1 :: connection where
  "conn_S1 = \<lparr>conn_twilioSocket = 0, elevenLabsClient = 0, isReady = False, audioQueue = [], startTime = 0\<rparr>"


definition two_queued :: "handler \<times> world" where
  "two_queued = snd (feed [(1, media ''a''), (2, media ''b'')] connecting)"

text \<open>
  A \<open>start\<close> frame whose \<open>streamSid\<close> is the array \<open>[1]\<close>, and the state of a new
  socket after two such frames.
\<close>

definition start_array :: json where
  "start_array = JObj [(''event'', JStr ''start''),
                       (''start'', JObj [(''streamSid'', JArr [JNum 1]), (''callSid'', JStr ''CA1'')])]"

definition started_twice :: "handler \<times> world" where
  "started_twice =
     snd (socket_frame 1 start_array (snd (socket_frame 0 start_array (new_handler 0, world0))))"

text \<open>
  The call \<open>S1\<close> once its agent socket has opened with nothing queued, and the
  telephony frame \<open>{event: "stop"}\<close>.
\<close>

definition streaming :: "handler \<times> world" where
  "streaming = (fst connecting, the (world_of (on_agent_open (fst connecting) 0 1 (snd connecting))))"

definition stop_frame :: json where
  "stop_frame = JObj [(''event'', JStr ''stop'')]"

text \<open>The agent frame \<open>{type: "ping", ping_event: {event_id: 0}}\<close>.\<close>

definition ping_zero :: json where
  "ping_zero = JObj [(''type'', JStr ''ping''), (''ping_event'', JObj [(''event_id'', JNum 0)])]"

text \<open>
  \<open>JSON.parse\<close> on the frame texts of the examples, each text written as a short name
  for the JSON it stands for; every other text is rejected.
\<close>

definition parse_demo :: "string \<Rightarrow> json option" where
  "parse_demo text =
     map_of [(''audio x'', JObj [(''type'', JStr ''audio''), (''audio'', JObj [(''chunk'', JStr ''x'')])]),
             (''interruption'', JObj [(''type'', JStr ''interruption'')]),
             (''ping without id'', JObj [(''type'', JStr ''ping''), (''ping_event'', JObj [])])] text"

section \<open>Lemmas about the handlers\<close>

lemma keep_last_append: "keep_last n (keep_last n xs @ ys) = keep_last n (xs @ ys)"
proof (cases "length xs \<le> n")
  case True
  then show ?thesis by (simp add: keep_last_def)
next
  case False
  then have a: "length (drop (length xs - n) xs @ ys) - n = length ys"
    by simp
  have b: "length (xs @ ys) - n = (length xs - n) + length ys"
    using False by simp
  show ?thesis
    unfolding keep_last_def a b using False by (simp add: add.commute)
qed

lemma keep_last_nil [simp]: "keep_last n [] = []"
  by (simp add: keep_last_def)

lemma length_keep_last: "length (keep_last n xs) \<le> n"
  by (simp add: keep_last_def)

lemma keep_last_short: "length xs \<le> n \<Longrightarrow> keep_last n xs = xs"
  by (simp add: keep_last_def)

lemma push_shift: "length q \<le> 50 \<Longrightarrow>
   (if length (q @ [p]) > 50 then tl (q @ [p]) else q @ [p]) = keep_last 50 (q @ [p])"
  by (cases q) (auto simp: keep_last_def drop_Cons' )

lemma media_before_ready:
  assumes "h_streamKey h = sid" "truthy (h_streamSid h)"
    "activeConnections w sid = Some conn" "\<not> isReady conn" "length (audioQueue conn) \<le> 50"
    "is_media m"
  shows "snd (socket_frame now m (h, w)) =
     (h, w\<lparr>activeConnections := (activeConnections w)(sid \<mapsto>
           conn\<lparr>audioQueue := keep_last 50 (audioQueue conn @ payloads [(now, m)])\<rparr>)\<rparr>)"
proof (cases "truthy (payload_of m)")
  case True
  have "(if 50 < length (audioQueue conn @ [the (payload_of m)]) then tl (audioQueue conn @ [the (payload_of m)])
         else audioQueue conn @ [the (payload_of m)]) = keep_last 50 (audioQueue conn @ [the (payload_of m)])"
    using assms(5) by (rule push_shift)
  with True assms show ?thesis
    by (simp add: socket_frame_def is_media_def on_media_def payloads_def Let_def)
next
  case False
  have "w\<lparr>activeConnections := (activeConnections w)(sid \<mapsto> conn)\<rparr> = w"
    using assms(3) by (simp add: fun_upd_idem)
  with False assms show ?thesis
    by (simp add: socket_frame_def is_media_def on_media_def payloads_def keep_last_short fun_upd_idem)
qed

lemma payloads_Cons: "payloads (f # fs) = payloads [f] @ payloads fs"
  by (simp add: payloads_def)

lemma feed_before_ready:
  assumes "h_streamKey h = sid" "truthy (h_streamSid h)"
    "activeConnections w sid = Some conn" "\<not> isReady conn" "length (audioQueue conn) \<le> 50"
    "list_all (\<lambda>f. is_media (snd f)) fs"
  shows "snd (feed fs (h, w)) =
     (h, w\<lparr>activeConnections := (activeConnections w)(sid \<mapsto>
           conn\<lparr>audioQueue := keep_last 50 (audioQueue conn @ payloads fs)\<rparr>)\<rparr>)"
  using assms
proof (induction fs arbitrary: w conn)
  case Nil
  have "w\<lparr>activeConnections := (activeConnections w)(sid \<mapsto> conn)\<rparr> = w"
    using Nil(3) by (simp add: fun_upd_idem)
  with Nil show ?case by (simp add: payloads_def keep_last_short fun_upd_idem)
next
  case (Cons f fs)
  let ?conn1 = "conn\<lparr>audioQueue := keep_last 50 (audioQueue conn @ payloads [f])\<rparr>"
  let ?w1 = "w\<lparr>activeConnections := (activeConnections w)(sid \<mapsto> ?conn1)\<rparr>"
  have step: "snd (socket_frame (fst f) (snd f) (h, w)) = (h, ?w1)"
    using media_before_ready [OF Cons.prems(1-5), of "snd f" "fst f"] Cons.prems(6) by simp
  have ih: "snd (feed fs (h, ?w1)) =
     (h, ?w1\<lparr>activeConnections := (activeConnections ?w1)(sid \<mapsto>
           ?conn1\<lparr>audioQueue := keep_last 50 (audioQueue ?conn1 @ payloads fs)\<rparr>)\<rparr>)"
    using Cons.prems by (intro Cons.IH) (simp_all add: length_keep_last)
  have "snd (feed (f # fs) (h, w)) = snd (feed fs (snd (socket_frame (fst f) (snd f) (h, w))))"
    by (simp split: prod.splits)
  then have eq: "snd (feed (f # fs) (h, w)) = snd (feed fs (h, ?w1))"
    by (simp only: step)
  have q: "keep_last 50 (audioQueue ?conn1 @ payloads fs) = keep_last 50 (audioQueue conn @ payloads (f # fs))"
    by (simp add: keep_last_append payloads_Cons [of f fs])
  show ?case
    unfolding eq ih q by (simp, intro world.equality) (simp_all add: fun_eq_iff)
qed

lemma emit_nil [simp]: "emit r [] w = w"
  by (simp add: emit_def)

lemma emit_emit [simp]: "emit r ys (emit r xs w) = emit r (xs @ ys) w"
  by (simp add: emit_def)

lemma emit_sel [simp]:
  "activeConnections (emit r fs w) = activeConnections w"
  "clients (emit r fs w) = clients w"
  "startPromise (emit r fs w) = startPromise w"
  "nextClient (emit r fs w) = nextClient w"
  "nextSocket (emit r fs w) = nextSocket w"
  "configured (emit r fs w) = configured w"
  "nextObject (emit r fs w) = nextObject w"
  "readyState (sockets (emit r fs w) r') = readyState (sockets w r')"
  "sent (sockets (emit r fs w) r) = sent (sockets w r) @ fs"
  "r' \<noteq> r \<Longrightarrow> sent (sockets (emit r fs w) r') = sent (sockets w r')"
  by (simp_all add: emit_def)

lemma ws_send_open: "readyState (sockets w r) = OPEN \<Longrightarrow> ws_send r f w = Inr (emit r [f] w)"
  by (simp add: ws_send_def emit_def)

lemma sendAudio_open:
  assumes "ws (clients w c) = Some r" "isConnected (clients w c)" "readyState (sockets w r) = OPEN"
  shows "snd (sendAudio c p w) = emit r [audio_chunk_frame p] w"
  using assms by (simp add: sendAudio_def ws_send_open)

lemma send_queued_open:
  assumes "ws (clients w c) = Some r" "isConnected (clients w c)" "readyState (sockets w r) = OPEN"
  shows "snd (send_queued c q w) = emit r (map audio_chunk_frame q) w"
  using assms
proof (induction q arbitrary: w)
  case Nil
  then show ?case by simp
next
  case (Cons p q)
  have s: "snd (sendAudio c p w) = emit r [audio_chunk_frame p] w"
    using Cons.prems by (rule sendAudio_open)
  have "snd (send_queued c (p # q) w) = snd (send_queued c q (snd (sendAudio c p w)))"
    by (simp split: prod.splits)
  also have "\<dots> = snd (send_queued c q (emit r [audio_chunk_frame p] w))"
    by (simp only: s)
  also have "\<dots> = emit r (map audio_chunk_frame q) (emit r [audio_chunk_frame p] w)"
    using Cons.prems by (intro Cons.IH) simp_all
  finally show ?case by simp
qed

lemma send_queued_open':
  assumes "ws (clients w c) \<noteq> None" "isConnected (clients w c)"
    "readyState (sockets w (the (ws (clients w c)))) = OPEN"
  shows "snd (send_queued c q w) = emit (the (ws (clients w c))) (map audio_chunk_frame q) w"
  using assms send_queued_open [of w c "the (ws (clients w c))" q] by auto



lemma agent_open_drains:
  assumes "h_streamKey h = sid" "activeConnections w sid = Some conn"
    "ws (clients w c) = Some r" "startPromise w c = Pending"
  shows "world_of (on_agent_open h c r w) =
      Some (emit r (config_frame (prompt (clients w c)) (firstMessage (clients w c)) #
                        map audio_chunk_frame (audioQueue conn)) (opened sid conn c r w))"
proof (cases "audioQueue conn = []")
  case True
  with assms show ?thesis
    apply (simp add: world_of_def on_agent_open_def Let_def ws_send_def resolve_start_def
        on_conversation_started_def split_beta)
    apply (intro world.equality)
    apply (simp_all add: fun_eq_iff emit_def opened_def)
    done
next
  case False
  with assms show ?thesis
    apply (simp add: world_of_def on_agent_open_def Let_def ws_send_def resolve_start_def
        on_conversation_started_def split_beta send_queued_open')
    apply (intro world.equality)
    apply (simp_all add: fun_eq_iff emit_def opened_def)
    done
qed

lemma started_eval:
  "fst started = \<lparr>h_socket = 0, h_streamSid = Some (JStr ''S1''), h_streamKey = ByValue (Some (JStr ''S1'')),
                   h_callSid = Some (JStr ''CA1'')\<rparr>"
  "activeConnections (snd started) = [ByValue (Some (JStr ''S1'')) \<mapsto> conn_S1]"
  "nextClient (snd started) = 1"
  "nextSocket (snd started) = 1"
  "startPromise (snd started) = (\<lambda>c. Pending)"
  "clients (snd started) 0 = \<lparr>streamSid = JStr ''S1'', twilioSocket = 0,
      prompt = JStr ''You are a friendly AI assistant.'',
      firstMessage = JStr ''Hello, this is an AI assistant calling you.'', ws = None, isConnected = False\<rparr>"
  "sockets (snd started) = sockets world0"
  by (simp_all add: started_def socket_frame_def start_S1_def on_start_def Let_def new_client_def
      new_handler_def world0_def or_default_def conn_S1_def fun_eq_iff map_key_def is_object_def)

lemma connecting_eval:
  "fst connecting = \<lparr>h_socket = 0, h_streamSid = Some (JStr ''S1''), h_streamKey = ByValue (Some (JStr ''S1'')),
                   h_callSid = Some (JStr ''CA1'')\<rparr>"
  "activeConnections (snd connecting) = [ByValue (Some (JStr ''S1'')) \<mapsto> conn_S1]"
  "startPromise (snd connecting) = (\<lambda>c. Pending)"
  "clients (snd connecting) 0 = \<lparr>streamSid = JStr ''S1'', twilioSocket = 0,
      prompt = JStr ''You are a friendly AI assistant.'',
      firstMessage = JStr ''Hello, this is an AI assistant calling you.'', ws = Some (Suc 0), isConnected = False\<rparr>"
  "sockets (snd connecting) (Suc 0) = \<lparr>readyState = CONNECTING, sent = []\<rparr>"
  "sockets (snd connecting) 0 = \<lparr>readyState = OPEN, sent = []\<rparr>"
  by (simp_all add: connecting_def signed_url_received_def started_eval world0_def)

lemma is_media_media [simp]: "is_media (media p)"
  by (simp add: is_media_def media_def)

lemma payload_media [simp]: "payload_of (media p) = Some (JStr p)"
  by (simp add: payload_of_def media_def)

lemma opened_sel [simp]:
  "activeConnections (opened sid conn c r w) = (activeConnections w)(sid \<mapsto> conn\<lparr>isReady := True, audioQueue := []\<rparr>)"
  "clients (opened sid conn c r w) = (clients w)(c := (clients w c)\<lparr>isConnected := True\<rparr>)"
  "startPromise (opened sid conn c r w) = (startPromise w)(c := Fulfilled)"
  "sockets (opened sid conn c r w) = (sockets w)(r := (sockets w r)\<lparr>readyState := OPEN\<rparr>)"
  by (simp_all add: opened_def)


lemma reject_keeps_registry: "activeConnections (snd (reject_start c w)) = activeConnections w"
  by (simp add: reject_start_def on_conversation_failed_def)

lemma two_queued_eval:
  "activeConnections (snd two_queued) = [ByValue (Some (JStr ''S1'')) \<mapsto> conn_S1\<lparr>audioQueue := [JStr ''a'', JStr ''b'']\<rparr>]"
  "startPromise (snd two_queued) 0 = Pending"
  "isConnected (clients (snd two_queued) 0) = False"
proof -
  have h: "h_streamKey (fst connecting) = ByValue (Some (JStr ''S1''))" "truthy (h_streamSid (fst connecting))"
    "activeConnections (snd connecting) (ByValue (Some (JStr ''S1''))) = Some conn_S1" "\<not> isReady conn_S1"
    "length (audioQueue conn_S1) \<le> 50"
    "list_all (\<lambda>f. is_media (snd f)) [(1, media ''a''), (2, media ''b'')]"
    by (simp_all add: connecting_eval conn_S1_def)
  have "snd (feed [(1, media ''a''), (2, media ''b'')] (fst connecting, snd connecting)) =
     (fst connecting, (snd connecting)\<lparr>activeConnections := (activeConnections (snd connecting))(ByValue (Some (JStr ''S1'')) \<mapsto>
           conn_S1\<lparr>audioQueue := keep_last 50 (audioQueue conn_S1 @ payloads [(1, media ''a''), (2, media ''b'')])\<rparr>)\<rparr>)"
    using h by (rule feed_before_ready)
  then have e: "two_queued = (fst connecting, (snd connecting)\<lparr>activeConnections := (activeConnections (snd connecting))(ByValue (Some (JStr ''S1'')) \<mapsto>
           conn_S1\<lparr>audioQueue := [JStr ''a'', JStr ''b'']\<rparr>)\<rparr>)"
    by (simp add: two_queued_def payloads_def keep_last_def conn_S1_def)
  show "activeConnections (snd two_queued) = [ByValue (Some (JStr ''S1'')) \<mapsto> conn_S1\<lparr>audioQueue := [JStr ''a'', JStr ''b'']\<rparr>]"
    "startPromise (snd two_queued) 0 = Pending"
    "isConnected (clients (snd two_queued) 0) = False"
    by (simp_all add: e connecting_eval)
qed

lemma cleanup_again:
  "cleanupConnection sid (snd (cleanupConnection sid w)) =
     ([(LOG, ''Cleaning up connection for stream'')], snd (cleanupConnection sid w))"
  by (cases "activeConnections w sid") (simp_all add: cleanupConnection_def split_beta)

lemma cleanup_repeat:
  "((\<lambda>v. snd (cleanupConnection sid v)) ^^ n) (snd (cleanupConnection sid w)) = snd (cleanupConnection sid w)"
  by (induction n) (simp_all add: cleanup_again)

lemma endConversation_again:
  "endConversation c (snd (endConversation c w)) =
     ([(LOG, ''No active conversation to end'')], snd (endConversation c w))"
  by (cases "ws (clients w c)") (simp_all add: endConversation_def split_beta)

lemma svc_end_sent:
  assumes "ws (clients w c) \<noteq> Some (twilioSocket (clients w c))"
  shows "sent (sockets (snd (svc_endConversation c w)) (twilioSocket (clients w c))) =
     sent (sockets w (twilioSocket (clients w c))) @
     (if readyState (sockets w (twilioSocket (clients w c))) = OPEN then [mark_frame (streamSid (clients w c))] else [])"
proof (cases "ws (clients w c)")
  case None
  then show ?thesis
    by (simp add: svc_endConversation_def ws_send_def)
next
  case (Some r)
  with assms have ne: "r \<noteq> twilioSocket (clients w c)" by simp
  show ?thesis
    using Some ne
    by (cases "readyState (sockets w r)")
       (simp_all add: svc_endConversation_def ws_send_def ws_close_def)
qed

lemma svc_end_registry:
  "activeConnections (snd (svc_endConversation c w)) = activeConnections w"
proof (cases "ws (clients w c)")
  case None
  then show ?thesis
    by (simp add: svc_endConversation_def Let_def ws_send_open)
next
  case (Some r)
  then show ?thesis
    by (cases "readyState (sockets w r)")
       (simp_all add: svc_endConversation_def Let_def ws_send_open ws_close_def)
qed

lemma svc_end_agent_socket:
  assumes "ws (clients w c) \<noteq> Some (twilioSocket (clients w c))"
  shows "map_option (\<lambda>r. readyState (sockets (snd (svc_endConversation c w)) r)) (ws (clients w c)) =
     map_option (\<lambda>r. if readyState (sockets w r) = CLOSED then CLOSED else CLOSING) (ws (clients w c))"
proof (cases "ws (clients w c)")
  case None
  then show ?thesis by simp
next
  case (Some r)
  with assms have ne: "r \<noteq> twilioSocket (clients w c)" by simp
  show ?thesis
    using Some ne
    by (cases "readyState (sockets w r)")
       (simp_all add: svc_endConversation_def Let_def ws_send_open ws_close_def)
qed

lemma svc_end_client:
  "ws (clients (snd (svc_endConversation c w)) c) = None \<and>
   \<not> isConnected (clients (snd (svc_endConversation c w)) c)"
proof (cases "ws (clients w c)")
  case None
  then show ?thesis
    by (simp add: svc_endConversation_def Let_def ws_send_open)
next
  case (Some r)
  then show ?thesis
    by (cases "readyState (sockets w r)")
       (simp_all add: svc_endConversation_def Let_def ws_send_open ws_close_def)
qed

lemma ws_send_frame:
  assumes "ws_send r f w = Inr w'"
  shows "clients w' = clients w" "readyState (sockets w' r') = readyState (sockets w r')"
    "activeConnections w' = activeConnections w"
  using assms by (cases "readyState (sockets w r)"; simp add: ws_send_def; fastforce)+

lemma dispatch_frame:
  assumes "dispatch_agent_message c m w = (out, Inr w')"
  shows "clients w' = clients w \<and> readyState (sockets w' r') = readyState (sockets w r') \<and>
     activeConnections w' = activeConnections w"
  using assms ws_send_frame
  unfolding dispatch_agent_message_def
  by (simp split: sum.splits if_splits option.splits)

lemma agent_message_frame:
  "clients (snd (on_agent_message parse c d w)) = clients w \<and>
   readyState (sockets (snd (on_agent_message parse c d w)) r) = readyState (sockets w r) \<and>
   activeConnections (snd (on_agent_message parse c d w)) = activeConnections w"
proof (cases "parse d")
  case None
  then show ?thesis by (simp add: on_agent_message_def)
next
  case (Some m)
  obtain out res where d: "dispatch_agent_message c m w = (out, res)"
    by (cases "dispatch_agent_message c m w")
  show ?thesis
  proof (cases res)
    case (Inl e)
    with Some d show ?thesis by (simp add: on_agent_message_def)
  next
    case (Inr w')
    with Some d dispatch_frame [of c m w out w' r] show ?thesis
      by (simp add: on_agent_message_def)
  qed
qed

lemma feed_agent_frame:
  "clients (snd (feed_agent parse c ds w)) = clients w \<and>
   readyState (sockets (snd (feed_agent parse c ds w)) r) = readyState (sockets w r) \<and>
   activeConnections (snd (feed_agent parse c ds w)) = activeConnections w"
  by (induction ds arbitrary: w) (simp_all add: split_beta agent_message_frame)

lemma feed_agent_append:
  "feed_agent parse c (xs @ ys) w =
     (fst (feed_agent parse c xs w) @ fst (feed_agent parse c ys (snd (feed_agent parse c xs w))),
      snd (feed_agent parse c ys (snd (feed_agent parse c xs w))))"
  by (induction xs arbitrary: w) (simp_all add: split_beta)

lemma interruption_step:
  assumes "parse d = Some message"
    and "get_prop message ''type'' = Inr (Some (JStr ''interruption''))"
    and "truthy (Some (streamSid (clients w c)))"
    and "readyState (sockets w (twilioSocket (clients w c))) = OPEN"
  shows "on_agent_message parse c d w =
    ([(LOG, ''[ElevenLabs] Received interruption'')],
     emit (twilioSocket (clients w c)) [clear_frame (streamSid (clients w c))] w)"
  using assms by (simp add: on_agent_message_def dispatch_agent_message_def ws_send_def emit_def)

lemma ping_truthy_event_id_answered:
  assumes "parse d = Some message"
    and "get_prop message ''type'' = Inr (Some (JStr ''ping''))"
    and "opt_prop (opt_prop (Some message) ''ping_event'') ''event_id'' = Some event_id"
    and "truthy (Some event_id)"
    and "ws (clients w c) = Some r" and "readyState (sockets w r) = OPEN"
  shows "on_agent_message parse c d w =
    ([(LOG, ''[ElevenLabs] Sent pong response'')], emit r [pong_frame event_id] w)"
  using assms by (simp add: on_agent_message_def dispatch_agent_message_def ws_send_open)

text \<open>
  The compiled handler with the client of dist/services/elevenlabs.js does send the
  completion mark: when the session \<open>sid\<close> is registered and the agent socket of its
  client, if it has one, is not its telephony socket \<open>ts\<close>, \<open>cleanupConnection(sid)\<close>
  sends the mark on \<open>ts\<close> exactly when \<open>ts\<close> is open, shuts the agent socket, resets
  \<open>this.ws\<close> and removes the session, and further cleanups of \<open>sid\<close> change nothing.
\<close>

lemma compiled_cleanup_sends_mark:
  assumes "activeConnections w sid = Some conn"
    and "elevenLabsClient conn = c"
    and "twilioSocket (clients w c) = ts"
    and "ws (clients w c) \<noteq> Some ts"
  shows "sent (sockets (snd (cleanupConnection sid w)) ts) =
           sent (sockets w ts) @
           (if readyState (sockets w ts) = OPEN then [mark_frame (streamSid (clients w c))] else []) \<and>
         map_option (\<lambda>r. readyState (sockets (snd (cleanupConnection sid w)) r)) (ws (clients w c)) =
           map_option (\<lambda>r. if readyState (sockets w r) = CLOSED then CLOSED else CLOSING) (ws (clients w c)) \<and>
         ws (clients (snd (cleanupConnection sid w)) c) = None \<and>
         activeConnections (snd (cleanupConnection sid w)) = (activeConnections w)(sid := None) \<and>
         ((\<lambda>v. snd (cleanupConnection sid v)) ^^ n) (snd (cleanupConnection sid w)) =
           snd (cleanupConnection sid w)"
proof -
  have w: "ws (clients w c) \<noteq> Some (twilioSocket (clients w c))"
    using assms by simp
  have "sent (sockets (snd (cleanupConnection sid w)) ts) =
           sent (sockets w ts) @
           (if readyState (sockets w ts) = OPEN then [mark_frame (streamSid (clients w c))] else []) \<and>
         map_option (\<lambda>r. readyState (sockets (snd (cleanupConnection sid w)) r)) (ws (clients w c)) =
           map_option (\<lambda>r. if readyState (sockets w r) = CLOSED then CLOSED else CLOSING) (ws (clients w c)) \<and>
         ws (clients (snd (cleanupConnection sid w)) c) = None \<and>
         activeConnections (snd (cleanupConnection sid w)) = (activeConnections w)(sid := None)"
    using assms(1-3) svc_end_sent [OF w] svc_end_agent_socket [OF w] svc_end_registry [of c w]
      svc_end_client [of c w]
    by (simp add: cleanupConnection_def split_beta)
  then show ?thesis
    by (simp only: cleanup_repeat simp_thms)
qed

text \<open>
  A \<open>streamSid\<close> that is an array is a new key with every frame: after two \<open>start\<close>
  frames with the \<open>streamSid\<close> \<open>[1]\<close> the map holds both sessions, and the handler's
  \<open>streamSid\<close> is the second array.
\<close>

lemma array_streamSid_adds_entry:
  "activeConnections (snd started_twice) (ByIdentity 0) =
     Some \<lparr>conn_twilioSocket = 0, elevenLabsClient = 0, isReady = False, audioQueue = [], startTime = 0\<rparr> \<and>
   activeConnections (snd started_twice) (ByIdentity 1) =
     Some \<lparr>conn_twilioSocket = 0, elevenLabsClient = 1, isReady = False, audioQueue = [], startTime = 1\<rparr> \<and>
   h_streamKey (fst started_twice) = ByIdentity 1"
  by (simp add: started_twice_def socket_frame_def start_array_def on_start_def Let_def new_client_def
      new_handler_def world0_def or_default_def split_beta map_key_def is_object_def)

lemma streaming_eval:
  "fst streaming = fst connecting"
  "activeConnections (snd streaming) =
     [ByValue (Some (JStr ''S1'')) \<mapsto> conn_S1\<lparr>isReady := True, audioQueue := []\<rparr>]"
  "ws (clients (snd streaming) 0) = Some (Suc 0)"
  "sockets (snd streaming) 0 = \<lparr>readyState = OPEN, sent = []\<rparr>"
  "readyState (sockets (snd streaming) (Suc 0)) = OPEN"
proof -
  have "world_of (on_agent_open (fst connecting) 0 1 (snd connecting)) =
      Some (emit 1 (config_frame (prompt (clients (snd connecting) 0)) (firstMessage (clients (snd connecting) 0)) #
                    map audio_chunk_frame (audioQueue conn_S1))
             (opened (ByValue (Some (JStr ''S1''))) conn_S1 0 1 (snd connecting)))"
    by (rule agent_open_drains) (simp_all add: connecting_eval)
  then have e: "streaming = (fst connecting,
       emit 1 (config_frame (prompt (clients (snd connecting) 0)) (firstMessage (clients (snd connecting) 0)) #
                    map audio_chunk_frame (audioQueue conn_S1))
             (opened (ByValue (Some (JStr ''S1''))) conn_S1 0 1 (snd connecting)))"
    by (simp add: streaming_def)
  show "fst streaming = fst connecting"
    "activeConnections (snd streaming) =
       [ByValue (Some (JStr ''S1'')) \<mapsto> conn_S1\<lparr>isReady := True, audioQueue := []\<rparr>]"
    "ws (clients (snd streaming) 0) = Some (Suc 0)"
    "sockets (snd streaming) 0 = \<lparr>readyState = OPEN, sent = []\<rparr>"
    "readyState (sockets (snd streaming) (Suc 0)) = OPEN"
    by (simp_all add: e connecting_eval emit_def opened_def)
qed

section \<open>The claims\<close>






text \<open>
  Claim C3. While a session is registered under \<open>sid\<close>, the key that the handler's
  truthy \<open>streamSid\<close> is, and is not ready, after any sequence of media frames the queue holds at most 50 payloads, and they are the most recent ones
  (of the queue before and of the frames) in arrival order; the session is still not
  ready.
\<close>

theorem pending_queue_bounded:
  assumes "h_streamKey h = sid" "truthy (h_streamSid h)"
    "activeConnections w sid = Some conn" "\<not> isReady conn" "length (audioQueue conn) \<le> 50"
    "list_all (\<lambda>f. is_media (snd f)) fs"
  shows "\<exists>w' conn'. snd (feed fs (h, w)) = (h, w') \<and> activeConnections w' sid = Some conn' \<and>
          \<not> isReady conn' \<and> length (audioQueue conn') \<le> 50 \<and>
          audioQueue conn' = drop (length (audioQueue conn @ payloads fs) - 50) (audioQueue conn @ payloads fs)"
  using feed_before_ready [OF assms] assms(4) length_keep_last [of 50 "audioQueue conn @ payloads fs"]
  by (simp add: keep_last_def)

text \<open>The hypotheses of C3 hold in the call \<open>S1\<close> while its agent socket is connecting.\<close>

theorem pending_queue_bounded_witness:
  "h_streamKey (fst connecting) = ByValue (Some (JStr ''S1'')) \<and> truthy (h_streamSid (fst connecting)) \<and>
   activeConnections (snd connecting) (ByValue (Some (JStr ''S1''))) = Some conn_S1 \<and> \<not> isReady conn_S1 \<and>
   length (audioQueue conn_S1) \<le> 50 \<and>
   list_all (\<lambda>f. is_media (snd f)) [(1, media ''a''), (2, media ''b'')] \<and>
   (\<exists>w' conn'. snd (feed [(1, media ''a''), (2, media ''b'')] (fst connecting, snd connecting)) = (fst connecting, w') \<and>
      activeConnections w' (ByValue (Some (JStr ''S1''))) = Some conn' \<and> \<not> isReady conn' \<and> length (audioQueue conn') \<le> 50 \<and>
      audioQueue conn' = [JStr ''a'', JStr ''b''])"
proof -
  have h: "h_streamKey (fst connecting) = ByValue (Some (JStr ''S1''))" "truthy (h_streamSid (fst connecting))"
    "activeConnections (snd connecting) (ByValue (Some (JStr ''S1''))) = Some conn_S1" "\<not> isReady conn_S1"
    "length (audioQueue conn_S1) \<le> 50"
    "list_all (\<lambda>f. is_media (snd f)) [(1, media ''a''), (2, media ''b'')]"
    by (simp_all add: connecting_eval conn_S1_def)
  show ?thesis
    using h pending_queue_bounded [OF h] by (simp add: payloads_def conn_S1_def)
qed

text \<open>
  Claim C4 at the failing input: the call \<open>S1\<close> has two frames queued when the agent
  socket reports an error, or when the connect timer fires. The promise is rejected, and
  the entry of \<open>S1\<close> is still in the map with both frames in its queue.
\<close>

theorem connect_failure_keeps_session:
  "activeConnections (snd (on_agent_error 0 (snd two_queued))) (ByValue (Some (JStr ''S1''))) =
     Some \<lparr>conn_twilioSocket = 0, elevenLabsClient = 0, isReady = False,
           audioQueue = [JStr ''a'', JStr ''b''], startTime = 0\<rparr> \<and>
   activeConnections (snd (on_connect_timeout 0 (snd two_queued))) (ByValue (Some (JStr ''S1''))) =
     Some \<lparr>conn_twilioSocket = 0, elevenLabsClient = 0, isReady = False,
           audioQueue = [JStr ''a'', JStr ''b''], startTime = 0\<rparr> \<and>
   startPromise (snd (on_agent_error 0 (snd two_queued))) 0 = Rejected"
  by (simp add: on_agent_error_def on_connect_timeout_def split_beta reject_keeps_registry
      two_queued_eval conn_S1_def reject_start_def on_conversation_failed_def)

text \<open>
  Claim C5. After one \<open>cleanupConnection(sid)\<close>, any number of further calls leave the
  world as it is, and each of them writes one console line and nothing else; a second
  \<open>endConversation()\<close> on a client finds no socket and changes nothing.
\<close>

theorem cleanup_idempotent:
  "((\<lambda>v. snd (cleanupConnection sid v)) ^^ n) (snd (cleanupConnection sid w)) = snd (cleanupConnection sid w) \<and>
   cleanupConnection sid (snd (cleanupConnection sid w)) =
     ([(LOG, ''Cleaning up connection for stream'')], snd (cleanupConnection sid w)) \<and>
   endConversation c (snd (endConversation c w)) =
     ([(LOG, ''No active conversation to end'')], snd (endConversation c w))"
  by (simp only: cleanup_repeat cleanup_again endConversation_again simp_thms)

text \<open>
  Claim C6 at the failing input: a ping whose \<open>event_id\<close> is the number 0 is not
  answered. In every world and for every client the listener sends nothing and writes
  nothing to the console.
\<close>

theorem ping_event_id_zero_unanswered: "on_agent_message (\<lambda>d. Some ping_zero) c d w = ([], w)"
  by (simp add: on_agent_message_def dispatch_agent_message_def ping_zero_def)

text \<open>
  Claim C7. The client has a truthy \<open>streamSid\<close> and its telephony socket is open. After
  any sequence \<open>earlier\<close> of agent frames, an interruption frame appends exactly one
  \<open>clear\<close> frame with that \<open>streamSid\<close> to what has been sent on the telephony
  socket, after everything forwarded for the earlier frames, and changes nothing else.
\<close>

theorem interruption_sends_one_clear:
  assumes "parse d = Some message"
    and "get_prop message ''type'' = Inr (Some (JStr ''interruption''))"
    and "truthy (Some (streamSid (clients w c)))"
    and "readyState (sockets w (twilioSocket (clients w c))) = OPEN"
  shows "\<exists>out w1. feed_agent parse c earlier w = (out, w1) \<and>
           feed_agent parse c (earlier @ [d]) w =
             (out @ [(LOG, ''[ElevenLabs] Received interruption'')],
              w1\<lparr>sockets := (sockets w1)(twilioSocket (clients w c) :=
                   (sockets w1 (twilioSocket (clients w c)))
                     \<lparr>sent := sent (sockets w1 (twilioSocket (clients w c))) @
                              [clear_frame (streamSid (clients w c))]\<rparr>)\<rparr>)"
proof -
  let ?w1 = "snd (feed_agent parse c earlier w)"
  have "on_agent_message parse c d ?w1 =
    ([(LOG, ''[ElevenLabs] Received interruption'')],
     emit (twilioSocket (clients ?w1 c)) [clear_frame (streamSid (clients ?w1 c))] ?w1)"
    using assms by (intro interruption_step) (simp_all add: feed_agent_frame)
  then have "feed_agent parse c (earlier @ [d]) w =
             (fst (feed_agent parse c earlier w) @ [(LOG, ''[ElevenLabs] Received interruption'')],
              emit (twilioSocket (clients w c)) [clear_frame (streamSid (clients w c))] ?w1)"
    by (simp add: feed_agent_append feed_agent_frame)
  then show ?thesis
    by (intro exI [of _ "fst (feed_agent parse c earlier w)"] exI [of _ ?w1]) (simp add: emit_def)
qed

text \<open>The hypotheses of C7 hold in the call \<open>S1\<close>: an audio frame, then an interruption.\<close>

theorem interruption_sends_one_clear_witness:
  "parse_demo ''interruption'' = Some (JObj [(''type'', JStr ''interruption'')]) \<and>
   get_prop (JObj [(''type'', JStr ''interruption'')]) ''type'' = Inr (Some (JStr ''interruption'')) \<and>
   truthy (Some (streamSid (clients (snd connecting) 0))) \<and>
   readyState (sockets (snd connecting) (twilioSocket (clients (snd connecting) 0))) = OPEN \<and>
   sent (sockets (snd (feed_agent parse_demo 0 [''audio x'', ''interruption''] (snd connecting))) 0) =
     [media_frame (JStr ''S1'') (JStr ''x''), clear_frame (JStr ''S1'')]"
proof -
  have h: "parse_demo ''interruption'' = Some (JObj [(''type'', JStr ''interruption'')])"
    "get_prop (JObj [(''type'', JStr ''interruption'')]) ''type'' = Inr (Some (JStr ''interruption''))"
    "truthy (Some (streamSid (clients (snd connecting) 0)))"
    "readyState (sockets (snd connecting) (twilioSocket (clients (snd connecting) 0))) = OPEN"
    by (simp_all add: parse_demo_def connecting_eval)
  from h interruption_sends_one_clear [where parse = parse_demo and d = "''interruption''"
        and message = "JObj [(''type'', JStr ''interruption'')]"
        and w = "snd connecting" and c = 0 and earlier = "[''audio x'']"]
  obtain out w1 where
    a: "feed_agent parse_demo 0 [''audio x''] (snd connecting) = (out, w1)"
    and b: "feed_agent parse_demo 0 ([''audio x''] @ [''interruption'']) (snd connecting) =
       (out @ [(LOG, ''[ElevenLabs] Received interruption'')],
        w1\<lparr>sockets := (sockets w1)(twilioSocket (clients (snd connecting) 0) :=
             (sockets w1 (twilioSocket (clients (snd connecting) 0)))
               \<lparr>sent := sent (sockets w1 (twilioSocket (clients (snd connecting) 0))) @
                        [clear_frame (streamSid (clients (snd connecting) 0))]\<rparr>)\<rparr>)"
    by blast
  have "snd (feed_agent parse_demo 0 [''audio x''] (snd connecting)) =
     emit 0 [media_frame (JStr ''S1'') (JStr ''x'')] (snd connecting)"
    by (simp add: on_agent_message_def dispatch_agent_message_def parse_demo_def connecting_eval
        ws_send_open)
  with a have w1: "w1 = emit 0 [media_frame (JStr ''S1'') (JStr ''x'')] (snd connecting)"
    by simp
  have "sent (sockets (snd (feed_agent parse_demo 0 [''audio x'', ''interruption''] (snd connecting))) 0) =
     [media_frame (JStr ''S1'') (JStr ''x''), clear_frame (JStr ''S1'')]"
    using b by (simp add: w1 connecting_eval del: feed_agent.simps)
  with h show ?thesis by blast
qed

text \<open>
  Claim C8. A frame that \<open>JSON.parse\<close> rejects makes either listener write one error
  line and leaves the handler variables and the world as they are, so that the frames
  after it are handled as if it had not arrived; \<open>safeJsonParse\<close> answers \<open>null\<close> with
  one error line.
\<close>

theorem malformed_frame_only_logged:
  assumes "parse raw = None"
  shows "on_socket_message parse now raw (h, w) = ([err_socket_message], h, w) \<and>
         on_agent_message parse c raw w = ([err_processing], w) \<and>
         safeJsonParse parse raw = ([(ERROR, ''Error parsing JSON:'')], JNull) \<and>
         feed_raw parse ((now, raw) # rest) (h, w) =
           (err_socket_message # fst (feed_raw parse rest (h, w)), snd (feed_raw parse rest (h, w))) \<and>
         feed_agent parse c (raw # later) w =
           (err_processing # fst (feed_agent parse c later w), snd (feed_agent parse c later w))"
  using assms
  by (simp add: on_socket_message_def on_agent_message_def safeJsonParse_def split_beta)

text \<open>The hypothesis of C8 holds for a text that is not JSON.\<close>

theorem malformed_frame_only_logged_witness:
  "parse_demo ''{not json'' = None \<and>
   on_socket_message parse_demo 5 ''{not json'' (fst connecting, snd connecting) =
     ([err_socket_message], fst connecting, snd connecting) \<and>
   on_agent_message parse_demo 0 ''{not json'' (snd connecting) = ([err_processing], snd connecting)"
proof -
  have h: "parse_demo ''{not json'' = None"
    by (simp add: parse_demo_def)
  show ?thesis
    using h malformed_frame_only_logged [where parse = parse_demo and raw = "''{not json''" and now = 5
        and h = "fst connecting" and w = "snd connecting" and c = 0 and rest = "[]" and later = "[]"]
    by blast
qed

text \<open>
  Claim C9 at the failing input: the call \<open>S1\<close> is streaming, its telephony socket is
  open, and the \<open>stop\<close> frame arrives at the queueing handler. The shutdown closes the
  agent socket and removes the session, but nothing is sent on the telephony socket, no
  completion mark among it, and nothing closes the telephony socket.
\<close>

theorem stop_sends_no_mark:
  "activeConnections (snd streaming) (ByValue (Some (JStr ''S1''))) =
     Some \<lparr>conn_twilioSocket = 0, elevenLabsClient = 0, isReady = True, audioQueue = [], startTime = 0\<rparr> \<and>
   sockets (snd streaming) 0 = \<lparr>readyState = OPEN, sent = []\<rparr> \<and>
   readyState (sockets (snd streaming) 1) = OPEN \<and>
   activeConnections (snd (snd (socket_frame 9 stop_frame streaming))) (ByValue (Some (JStr ''S1''))) = None \<and>
   readyState (sockets (snd (snd (socket_frame 9 stop_frame streaming))) 1) = CLOSING \<and>
   sockets (snd (snd (socket_frame 9 stop_frame streaming))) 0 = \<lparr>readyState = OPEN, sent = []\<rparr>"
  by (simp add: socket_frame_def stop_frame_def on_stop_def endConversation_def ws_close_def
      split_beta streaming_eval connecting_eval conn_S1_def)

text \<open>
  Claim C10. A ping frame whose \<open>ping_event?.event_id\<close> is \<open>undefined\<close> (no such
  member, or no \<open>ping_event\<close> object) makes the listener send nothing, write nothing to
  the console and leave the world as it is.
\<close>

theorem ping_without_event_id_ignored:
  assumes "parse d = Some message"
    and "get_prop message ''type'' = Inr (Some (JStr ''ping''))"
    and "opt_prop (opt_prop (Some message) ''ping_event'') ''event_id'' = None"
  shows "on_agent_message parse c d w = ([], w)"
  using assms by (simp add: on_agent_message_def dispatch_agent_message_def)

text \<open>The hypotheses of C10 hold for a ping whose \<open>ping_event\<close> is an empty object.\<close>

theorem ping_without_event_id_ignored_witness:
  "parse_demo ''ping without id'' = Some (JObj [(''type'', JStr ''ping''), (''ping_event'', JObj [])]) \<and>
   get_prop (JObj [(''type'', JStr ''ping''), (''ping_event'', JObj [])]) ''type'' = Inr (Some (JStr ''ping'')) \<and>
   opt_prop (opt_prop (Some (JObj [(''type'', JStr ''ping''), (''ping_event'', JObj [])])) ''ping_event'') ''event_id'' = None \<and>
   on_agent_message parse_demo 0 ''ping without id'' (snd connecting) = ([], snd connecting)"
proof -
  have h: "parse_demo ''ping without id'' = Some (JObj [(''type'', JStr ''ping''), (''ping_event'', JObj [])])"
    "get_prop (JObj [(''type'', JStr ''ping''), (''ping_event'', JObj [])]) ''type'' = Inr (Some (JStr ''ping''))"
    "opt_prop (opt_prop (Some (JObj [(''type'', JStr ''ping''), (''ping_event'', JObj [])])) ''ping_event'') ''event_id'' = None"
    by (simp_all add: parse_demo_def)
  show ?thesis
    using h ping_without_event_id_ignored [where parse = parse_demo and d = "''ping without id''"
        and message = "JObj [(''type'', JStr ''ping''), (''ping_event'', JObj [])]"
        and c = 0 and w = "snd connecting"]
    by blast
qed

end
